theory Spec2Isabelle
  imports Complex_Main
begin

section \<open>Numbers, arrays and exceptions\<close>

text \<open>
  The module \<open>ion_functions/data/ph_functions.py\<close> computes on numpy \<open>float64\<close> arrays.
  In this development a \<open>float64\<close> is idealised: a finite value is a real number and
  rounding is ignored; the value \<open>None\<close> stands for a result that is not a finite number
  (numpy's \<open>inf\<close>, \<open>-inf\<close> or \<open>nan\<close>, which a division by zero or a logarithm of a
  non-positive number yields with a warning and without raising). Which of the three it is
  is not tracked, and an operation with such an operand is taken to be non-finite again.
  The inputs of the functions are finite numbers. The scalar arguments (temperature,
  absorptivities, salinity) are \<open>float64\<close> scalars like the elements of the arrays, as
  \<open>ph_calc_phwater\<close> passes them (\<open>therm[iRec]\<close>, \<open>ea434[iRec]\<close>), so that a division by a
  scalar that is zero is non-finite as well and raises nothing.

  Python exceptions are values of type \<open>error\<close>: indexing past the end of an array raises
  \<open>IndexError\<close>, and \<open>np.reshape\<close> to a shape of another size raises \<open>ValueError\<close>.
  Nothing else in the module raises; the module has no \<open>raise\<close> or \<open>try\<close> statement.
\<close>

type_synonym npfloat = "real option"

type_synonym npcomplex = "complex option"

datatype error = IndexError | ValueError

fun fadd :: "npfloat \<Rightarrow> npfloat \<Rightarrow> npfloat" where
  "fadd (Some x) (Some y) = Some (x + y)"
| "fadd _ _ = None"

fun fsub :: "npfloat \<Rightarrow> npfloat \<Rightarrow> npfloat" where
  "fsub (Some x) (Some y) = Some (x - y)"
| "fsub _ _ = None"

fun fmul :: "npfloat \<Rightarrow> npfloat \<Rightarrow> npfloat" where
  "fmul (Some x) (Some y) = Some (x * y)"
| "fmul _ _ = None"

fun fdiv :: "npfloat \<Rightarrow> npfloat \<Rightarrow> npfloat" where
  "fdiv (Some x) (Some y) = (if y = 0 then None else Some (x / y))"
| "fdiv _ _ = None"

fun fneg :: "npfloat \<Rightarrow> npfloat" where
  "fneg (Some x) = Some (- x)"
| "fneg None = None"

text \<open>\<open>x**2\<close> on a float array.\<close>

definition fsq :: "npfloat \<Rightarrow> npfloat" where
  "fsq x = fmul x x"

text \<open>\<open>np.log10\<close> on a real array: \<open>-inf\<close> at 0 and \<open>nan\<close> below.\<close>

fun flog10 :: "npfloat \<Rightarrow> npfloat" where
  "flog10 (Some x) = (if 0 < x then Some (log 10 x) else None)"
| "flog10 None = None"

text \<open>\<open>np.sum\<close> and \<open>np.mean\<close> of a one-dimensional array.\<close>

fun np_sum :: "npfloat list \<Rightarrow> npfloat" where
  "np_sum [] = Some 0"
| "np_sum (x # xs) = fadd x (np_sum xs)"

definition np_mean :: "npfloat list \<Rightarrow> npfloat" where
  "np_mean xs = fdiv (np_sum xs) (Some (real (length xs)))"

text \<open>Indexing \<open>a[i]\<close> with a non-negative index.\<close>

definition getitem :: "'a list \<Rightarrow> nat \<Rightarrow> error + 'a" where
  "getitem a i = (if i < length a then Inr (a ! i) else Inl IndexError)"

text \<open>Evaluating the elements of an array literal from left to right; the first
  exception is the one raised.\<close>

fun collect :: "(error + 'a) list \<Rightarrow> error + 'a list" where
  "collect [] = Inr []"
| "collect (r # rs) =
     (case r of Inl e \<Rightarrow> Inl e
      | Inr x \<Rightarrow> (case collect rs of Inl e \<Rightarrow> Inl e | Inr xs \<Rightarrow> Inr (x # xs)))"

text \<open>\<open>np.reshape(a, (23, 4))\<close>, row-major, and the column slice \<open>new[:, c]\<close>.\<close>

definition reshape_23_4 :: "'a list \<Rightarrow> error + 'a list list" where
  "reshape_23_4 a =
     (if length a = 92 then Inr (map (\<lambda>r. take 4 (drop (4 * r) a)) [0..<23])
      else Inl ValueError)"

definition column :: "'a list list \<Rightarrow> nat \<Rightarrow> 'a list" where
  "column new c = map (\<lambda>row. row ! c) new"

section \<open>The blanks\<close>

text \<open>Lines 142 to 158 of \<open>ph_phwater\<close>: \<open>ref[i] / ref[j]\<close> and the two means.\<close>

definition ratio :: "real list \<Rightarrow> nat \<Rightarrow> nat \<Rightarrow> error + npfloat" where
  "ratio ref i j =
     (case getitem ref i of Inl e \<Rightarrow> Inl e
      | Inr a \<Rightarrow> (case getitem ref j of Inl e \<Rightarrow> Inl e
          | Inr b \<Rightarrow> Inr (fdiv (Some a) (Some b))))"

definition ph_blanks :: "real list \<Rightarrow> error + npfloat \<times> npfloat" where
  "ph_blanks ref =
     (case collect [ratio ref 1 0, ratio ref 5 4, ratio ref 9 8, ratio ref 13 12] of
        Inl e \<Rightarrow> Inl e
      | Inr arr434 \<Rightarrow>
         (case collect [ratio ref 3 2, ratio ref 7 6, ratio ref 11 10, ratio ref 15 14] of
            Inl e \<Rightarrow> Inl e
          | Inr arr578 \<Rightarrow> Inr (np_mean arr434, np_mean arr578)))"

section \<open>The measurement cycle\<close>

text \<open>Elementwise arithmetic of arrays, and of an array with a scalar (broadcasting).\<close>

definition arr_mul :: "npfloat list \<Rightarrow> npfloat list \<Rightarrow> npfloat list" where
  "arr_mul a b = map2 fmul a b"

definition arr_div :: "npfloat list \<Rightarrow> npfloat list \<Rightarrow> npfloat list" where
  "arr_div a b = map2 fdiv a b"

definition arr_add :: "npfloat list \<Rightarrow> npfloat list \<Rightarrow> npfloat list" where
  "arr_add a b = map2 fadd a b"

definition arr_sub :: "npfloat list \<Rightarrow> npfloat list \<Rightarrow> npfloat list" where
  "arr_sub a b = map2 fsub a b"

definition arr_sub_s :: "npfloat list \<Rightarrow> npfloat \<Rightarrow> npfloat list" where
  "arr_sub_s a c = map (\<lambda>x. fsub x c) a"

definition s_sub_arr :: "npfloat \<Rightarrow> npfloat list \<Rightarrow> npfloat list" where
  "s_sub_arr c a = map (\<lambda>x. fsub c x) a"

definition arr_mul_s :: "npfloat list \<Rightarrow> npfloat \<Rightarrow> npfloat list" where
  "arr_mul_s a c = map (\<lambda>x. fmul x c) a"

definition arr_div_s :: "npfloat list \<Rightarrow> npfloat \<Rightarrow> npfloat list" where
  "arr_div_s a c = map (\<lambda>x. fdiv x c) a"

text \<open>Lines 164 to 169: the light measurements as 23 sets of 4, and the four columns
  \<open>ref434\<close>, \<open>int434\<close>, \<open>ref578\<close>, \<open>int578\<close>.\<close>

definition ph_light ::
  "real list \<Rightarrow> error + npfloat list \<times> npfloat list \<times> npfloat list \<times> npfloat list" where
  "ph_light light =
     (case reshape_23_4 (map Some light) of
        Inl e \<Rightarrow> Inl e
      | Inr new \<Rightarrow> Inr (column new 0, column new 1, column new 2, column new 3))"

text \<open>Lines 172 and 176: \<open>-np.log10(int / ref)\<close>.\<close>

definition absorbance :: "npfloat list \<Rightarrow> npfloat list \<Rightarrow> npfloat list" where
  "absorbance intensity reference = map fneg (map flog10 (arr_div intensity reference))"

text \<open>Line 181: pKa from Clayton and Byrne, 1993.\<close>

definition pKa_of :: "real \<Rightarrow> real \<Rightarrow> npfloat" where
  "pKa_of therm psal =
     fadd (fadd (fdiv (Some 1245.69) (Some (therm + 273.15))) (Some 3.8275))
          (Some (0.0021 * (35 - psal)))"

text \<open>Lines 185 to 188: the molar absorptivities, each name rebound to its value at the
  measured temperature.\<close>

record absorptivities =
  ea434' :: real
  ea578' :: real
  eb434' :: real
  eb578' :: real

definition molar_absorptivities ::
  "real \<Rightarrow> real \<Rightarrow> real \<Rightarrow> real \<Rightarrow> real \<Rightarrow> absorptivities" where
  "molar_absorptivities therm ea434 eb434 ea578 eb578 =
     \<lparr> ea434' = ea434 - (26 * (therm - 24.788)),
       ea578' = ea578 + (therm - 24.788),
       eb434' = eb434 + (12 * (therm - 24.788)),
       eb578' = eb578 - (71 * (therm - 24.788)) \<rparr>"

text \<open>Lines 189 to 191.\<close>

definition e1_of :: "absorptivities \<Rightarrow> npfloat" where
  "e1_of e = fdiv (Some (ea578' e)) (Some (ea434' e))"

definition e2_of :: "absorptivities \<Rightarrow> npfloat" where
  "e2_of e = fdiv (Some (eb578' e)) (Some (ea434' e))"

definition e3_of :: "absorptivities \<Rightarrow> npfloat" where
  "e3_of e = fdiv (Some (eb434' e)) (Some (ea434' e))"

text \<open>Lines 197 to 199: the indicator concentration.\<close>

definition IndConc_of :: "absorptivities \<Rightarrow> npfloat list \<Rightarrow> npfloat list \<Rightarrow> npfloat list" where
  "IndConc_of e abs434 abs578 =
     (let d = Some (ea434' e * eb578' e - eb434' e * ea578' e);
          HI = arr_div_s (arr_sub (arr_mul_s abs434 (Some (eb578' e)))
                                  (arr_mul_s abs578 (Some (eb434' e)))) d;
          I = arr_div_s (arr_sub (arr_mul_s abs578 (Some (ea434' e)))
                                 (arr_mul_s abs434 (Some (ea578' e)))) d
      in arr_add HI I)"

text \<open>
  \<open>np.lib.scimath.log10\<close>: when some element of the real array is negative the whole array
  is converted to complex, and \<open>np.log10\<close> is then the complex logarithm \<open>log z / log 10\<close>
  of each element; otherwise it is the real \<open>np.log10\<close>. At 0 both give \<open>-inf\<close>.
\<close>

datatype nparray = FloatArray "npfloat list" | ComplexArray "npcomplex list"

definition is_lt_zero :: "npfloat \<Rightarrow> bool" where
  "is_lt_zero v = (case v of None \<Rightarrow> False | Some x \<Rightarrow> x < 0)"

definition fix_real_lt_zero :: "npfloat list \<Rightarrow> nparray" where
  "fix_real_lt_zero x =
     (if list_ex is_lt_zero x then ComplexArray (map (map_option complex_of_real) x)
      else FloatArray x)"

definition clog10 :: "npcomplex \<Rightarrow> npcomplex" where
  "clog10 z =
     (case z of None \<Rightarrow> None
      | Some c \<Rightarrow> if c = 0 then None
                 else Some (Complex (ln (cmod c)) (Arg c) / complex_of_real (ln 10)))"

definition scimath_log10 :: "npfloat list \<Rightarrow> nparray" where
  "scimath_log10 x =
     (case fix_real_lt_zero x of
        FloatArray a \<Rightarrow> FloatArray (map flog10 a)
      | ComplexArray a \<Rightarrow> ComplexArray (map clog10 a))"

fun cadd :: "npcomplex \<Rightarrow> npcomplex \<Rightarrow> npcomplex" where
  "cadd (Some x) (Some y) = Some (x + y)"
| "cadd _ _ = None"

text \<open>\<open>pKa + a\<close> for a real scalar and an array of either kind, and \<open>np.real\<close>.\<close>

definition s_add_nparray :: "npfloat \<Rightarrow> nparray \<Rightarrow> nparray" where
  "s_add_nparray c a =
     (case a of
        FloatArray xs \<Rightarrow> FloatArray (map (fadd c) xs)
      | ComplexArray zs \<Rightarrow> ComplexArray (map (cadd (map_option complex_of_real c)) zs))"

definition np_real :: "nparray \<Rightarrow> npfloat list" where
  "np_real a = (case a of FloatArray xs \<Rightarrow> xs | ComplexArray zs \<Rightarrow> map (map_option Re) zs)"

text \<open>Lines 182, 193, 194 and 200: the pH of each of the 23 measurements.\<close>

definition pointph_of ::
  "npfloat \<Rightarrow> absorptivities \<Rightarrow> npfloat list \<Rightarrow> npfloat \<Rightarrow> npfloat list \<Rightarrow> npfloat
     \<Rightarrow> npfloat list" where
  "pointph_of pKa e A578 A578blank A434 A434blank =
     (let R = arr_div (arr_sub_s A578 A578blank) (arr_sub_s A434 A434blank);
          V1 = arr_sub_s R (e1_of e);
          V2 = s_sub_arr (e2_of e) (arr_mul_s R (e3_of e))
      in np_real (s_add_nparray pKa (scimath_log10 (arr_div V1 V2))))"

text \<open>Lines 142 to 200 together: the series \<open>IndConc\<close> and \<open>pointph\<close> of a record.\<close>

definition ph_points ::
  "real list \<Rightarrow> real list \<Rightarrow> real \<Rightarrow> real \<Rightarrow> real \<Rightarrow> real \<Rightarrow> real \<Rightarrow> real
     \<Rightarrow> error + npfloat list \<times> npfloat list" where
  "ph_points ref light therm ea434 eb434 ea578 eb578 psal =
     (case ph_blanks ref of
        Inl e \<Rightarrow> Inl e
      | Inr (blank434, blank578) \<Rightarrow>
         (case ph_light light of
            Inl e \<Rightarrow> Inl e
          | Inr (ref434, int434, ref578, int578) \<Rightarrow>
             (let A434 = absorbance int434 ref434;
                  A434blank = fneg (flog10 blank434);
                  abs434 = arr_sub_s A434 A434blank;
                  A578 = absorbance int578 ref578;
                  A578blank = fneg (flog10 blank578);
                  abs578 = arr_sub_s A578 A578blank;
                  pKa = pKa_of therm psal;
                  e = molar_absorptivities therm ea434 eb434 ea578 eb578;
                  IndConc = IndConc_of e abs434 abs578;
                  pointph = pointph_of pKa e A578 A578blank A434 A434blank
              in Inr (IndConc, pointph))))"

section \<open>The most linear window\<close>

text \<open>The slice \<open>a[i:j]\<close> for \<open>0 \<le> i \<le> j\<close>, and \<open>np.linspace(1, 18, 18)\<close>.\<close>

definition slice :: "'a list \<Rightarrow> nat \<Rightarrow> nat \<Rightarrow> 'a list" where
  "slice a i j = take (j - i) (drop i a)"

definition linspace_1_18 :: "npfloat list" where
  "linspace_1_18 = map (\<lambda>k. Some (real k)) [1..<19]"

text \<open>Lines 220 to 232: the body of the loop, for the window that starts at \<open>i\<close>. The
  means \<open>avgx\<close> and \<open>avgy\<close> of lines 225 and 226 are computed there and not used.\<close>

definition r2_window :: "npfloat list \<Rightarrow> npfloat list \<Rightarrow> nat \<Rightarrow> nat \<Rightarrow> npfloat" where
  "r2_window X Y count i =
     (let sumx = np_sum (slice X i (i + count));
          sumy = np_sum (slice Y i (i + count));
          sumxy = np_sum (arr_mul (slice X i (i + count)) (slice Y i (i + count)));
          sumx2 = np_sum (map fsq (slice X i (i + count)));
          sumy2 = np_sum (map fsq (slice Y i (i + count)));
          sumxx = fmul sumx sumx;
          sumyy = fmul sumy sumy;
          ssxy = fsub sumxy (fdiv (fmul sumx sumy) (Some (real count)));
          ssx = fsub sumx2 (fdiv sumxx (Some (real count)));
          ssy = fsub sumy2 (fdiv sumyy (Some (real count)))
      in fdiv (fsq ssxy) (fmul ssx ssy))"

text \<open>Lines 218 to 232: \<open>r2 = np.zeros(npts)\<close>, filled by the loop over \<open>range(npts)\<close>.\<close>

definition r2_loop :: "npfloat list \<Rightarrow> npfloat list \<Rightarrow> nat \<Rightarrow> nat \<Rightarrow> npfloat list" where
  "r2_loop X Y count npts =
     fold (\<lambda>i r2. r2[i := r2_window X Y count i]) [0..<npts] (replicate npts (Some 0))"

text \<open>
  \<open>np.argmax\<close> of a one-dimensional float array, as numpy scans it: the index of the first
  \<open>nan\<close> when there is one, and of the first greatest element otherwise; an empty array
  raises \<open>ValueError\<close>. A non-finite entry of \<open>r2\<close> is a \<open>nan\<close> (the quotient \<open>0/0\<close>, or
  a difference of infinite sums), so \<open>None\<close> is scanned as \<open>nan\<close>.
\<close>

fun argmax_scan :: "npfloat list \<Rightarrow> nat \<Rightarrow> real \<Rightarrow> nat \<Rightarrow> nat" where
  "argmax_scan [] i mp max_ind = max_ind"
| "argmax_scan (None # ip) i mp max_ind = i"
| "argmax_scan (Some x # ip) i mp max_ind =
     (if x \<le> mp then argmax_scan ip (Suc i) mp max_ind else argmax_scan ip (Suc i) x i)"

definition np_argmax :: "npfloat list \<Rightarrow> error + nat" where
  "np_argmax a =
     (case a of [] \<Rightarrow> Inl ValueError
      | None # ip \<Rightarrow> Inr 0
      | Some mp # ip \<Rightarrow> Inr (argmax_scan ip 1 mp 0))"

text \<open>Lines 206 to 232: the R-squared of every window.\<close>

definition ph_r2 :: "npfloat list \<Rightarrow> npfloat list" where
  "ph_r2 pointph =
     (let Y = drop 5 pointph;
          X = linspace_1_18;
          step = 7;
          count = step + 1;
          npts = length X - step
      in r2_loop X Y count npts)"

text \<open>Lines 205 to 240: the eight points of the window with the best R-squared.\<close>

definition ph_window ::
  "npfloat list \<Rightarrow> npfloat list \<Rightarrow> error + npfloat list \<times> npfloat list" where
  "ph_window IndConc pointph =
     (let IndConca = drop 5 IndConc;
          Y = drop 5 pointph;
          count = 8
      in case np_argmax (ph_r2 pointph) of
           Inl e \<Rightarrow> Inl e
         | Inr cutoff1 \<Rightarrow>
            (let cutoff2 = cutoff1 + count;
                 IndConcS = slice IndConca cutoff1 cutoff2;
                 pointphS = slice Y cutoff1 cutoff2
             in Inr (IndConcS, pointphS)))"

section \<open>The final regression\<close>

text \<open>Lines 243 to 256, with \<open>count = 8\<close>. The values \<open>sumy2\<close>, \<open>sumyy\<close> and \<open>ssy\<close> of
  lines 247, 251 and 254 are computed there and not used.\<close>

definition ph_regression :: "npfloat list \<Rightarrow> npfloat list \<Rightarrow> npfloat" where
  "ph_regression IndConcS pointphS =
     (let count = 8;
          sumx = np_sum IndConcS;
          sumy = np_sum pointphS;
          sumxy = np_sum (arr_mul pointphS IndConcS);
          sumx2 = np_sum (map fsq IndConcS);
          xbar = np_mean IndConcS;
          ybar = np_mean pointphS;
          sumxx = fmul sumx sumx;
          ssxy = fsub sumxy (fdiv (fmul sumx sumy) (Some count));
          ssx = fsub sumx2 (fdiv sumxx (Some count));
          slope = fdiv ssxy ssx
      in fsub ybar (fmul slope xbar))"

text \<open>The function \<open>ph_phwater\<close>, lines 102 to 258.\<close>

definition ph_phwater ::
  "real list \<Rightarrow> real list \<Rightarrow> real \<Rightarrow> real \<Rightarrow> real \<Rightarrow> real \<Rightarrow> real \<Rightarrow> real \<Rightarrow> error + npfloat" where
  "ph_phwater ref light therm ea434 eb434 ea578 eb578 psal =
     (case ph_points ref light therm ea434 eb434 ea578 eb578 psal of
        Inl e \<Rightarrow> Inl e
      | Inr (IndConc, pointph) \<Rightarrow>
         (case ph_window IndConc pointph of
            Inl e \<Rightarrow> Inl e
          | Inr (IndConcS, pointphS) \<Rightarrow> Inr (ph_regression IndConcS pointphS)))"

section \<open>Batches of records\<close>

text \<open>
  The salinity argument \<open>psal\<close> of \<open>ph_calc_phwater\<close> is a scalar (35.0 when it is left
  out) or an array with one value for each record. Lines 90 and 91 replace a scalar by
  \<open>np.tile(psal, (nRec, 1))\<close>, whose row \<open>psal[iRec]\<close> is an array of the one value, which
  line 181 broadcasts as that value.
\<close>

datatype salinity = PsalScalar real | PsalArray "real list"

definition psal_item :: "salinity \<Rightarrow> nat \<Rightarrow> nat \<Rightarrow> error + real" where
  "psal_item psal nRec iRec =
     (case psal of
        PsalScalar s \<Rightarrow>
          (case getitem (replicate nRec [s]) iRec of Inl e \<Rightarrow> Inl e | Inr row \<Rightarrow> Inr (hd row))
      | PsalArray a \<Rightarrow> getitem a iRec)"

text \<open>Lines 95 to 97: the arguments of record \<open>iRec\<close>, evaluated from left to right, and
  the call of \<open>ph_phwater\<close> on them.\<close>

definition ph_record ::
  "real list list \<Rightarrow> real list list \<Rightarrow> real list \<Rightarrow> real list \<Rightarrow> real list \<Rightarrow> real list
     \<Rightarrow> real list \<Rightarrow> salinity \<Rightarrow> nat \<Rightarrow> nat \<Rightarrow> error + npfloat" where
  "ph_record ref light therm ea434 eb434 ea578 eb578 psal nRec iRec =
     (case getitem ref iRec of Inl e \<Rightarrow> Inl e | Inr r \<Rightarrow>
     (case getitem light iRec of Inl e \<Rightarrow> Inl e | Inr l \<Rightarrow>
     (case getitem therm iRec of Inl e \<Rightarrow> Inl e | Inr t \<Rightarrow>
     (case getitem ea434 iRec of Inl e \<Rightarrow> Inl e | Inr a4 \<Rightarrow>
     (case getitem eb434 iRec of Inl e \<Rightarrow> Inl e | Inr b4 \<Rightarrow>
     (case getitem ea578 iRec of Inl e \<Rightarrow> Inl e | Inr a5 \<Rightarrow>
     (case getitem eb578 iRec of Inl e \<Rightarrow> Inl e | Inr b5 \<Rightarrow>
     (case psal_item psal nRec iRec of Inl e \<Rightarrow> Inl e | Inr s \<Rightarrow>
        ph_phwater r l t a4 b4 a5 b5 s))))))))"

text \<open>Lines 94 to 97: the loop over the records. An exception leaves the loop and the
  function; the array \<open>pH\<close> filled so far is lost with it.\<close>

fun batch_loop :: "(nat \<Rightarrow> error + npfloat) \<Rightarrow> nat list \<Rightarrow> npfloat list \<Rightarrow> error + npfloat list" where
  "batch_loop f [] pH = Inr pH"
| "batch_loop f (iRec # rest) pH =
     (case f iRec of Inl e \<Rightarrow> Inl e | Inr v \<Rightarrow> batch_loop f rest (pH[iRec := v]))"

text \<open>Lines 84 to 99: the branch of \<open>ph_calc_phwater\<close> for two-dimensional \<open>ref\<close>.\<close>

definition ph_calc_phwater_records ::
  "real list list \<Rightarrow> real list list \<Rightarrow> real list \<Rightarrow> real list \<Rightarrow> real list \<Rightarrow> real list
     \<Rightarrow> real list \<Rightarrow> salinity \<Rightarrow> error + npfloat list" where
  "ph_calc_phwater_records ref light therm ea434 eb434 ea578 eb578 psal =
     (let nRec = length ref;
          pH = replicate nRec (Some 0)
      in batch_loop (ph_record ref light therm ea434 eb434 ea578 eb578 psal nRec)
           [0..<nRec] pH)"

text \<open>
  The function \<open>ph_calc_phwater\<close>, lines 72 to 99. The test \<open>ref.ndim == 1\<close> tells a call
  with one record from a call with an array of records; the two kinds of call are the two
  constructors of the argument, and the two kinds of result those of the result.
\<close>

datatype phwater_args =
    OneRecord "real list" "real list" real real real real real real
  | Records "real list list" "real list list" "real list" "real list" "real list" "real list"
      "real list" salinity

datatype phwater_result = PH npfloat | PHs "npfloat list"

fun ph_calc_phwater :: "phwater_args \<Rightarrow> error + phwater_result" where
  "ph_calc_phwater (OneRecord ref light therm ea434 eb434 ea578 eb578 psal) =
     map_sum id PH (ph_phwater ref light therm ea434 eb434 ea578 eb578 psal)"
| "ph_calc_phwater (Records ref light therm ea434 eb434 ea578 eb578 psal) =
     map_sum id PHs (ph_calc_phwater_records ref light therm ea434 eb434 ea578 eb578 psal)"

section \<open>The signal intensities\<close>

text \<open>
  The wrappers \<open>ph_434_intensity\<close> (lines 16 to 34) and \<open>ph_578_intensity\<close> (lines 37 to
  55) take one record, a one-dimensional array, or an array of records. In the second
  branch \<open>tmp\<close> starts as the one-dimensional \<open>np.zeros(23)\<close>, \<open>np.vstack\<close> adds a row for
  each record, and \<open>tmp[1:, :]\<close> drops the row of zeros; it raises \<open>IndexError\<close> when
  \<open>tmp\<close> is still one-dimensional.
\<close>

datatype ndarray = Array1 "real list" | Array2 "real list list"

definition vstack :: "ndarray \<Rightarrow> real list \<Rightarrow> ndarray" where
  "vstack tmp row = (case tmp of Array1 a \<Rightarrow> Array2 [a, row] | Array2 rows \<Rightarrow> Array2 (rows @ [row]))"

fun intensity_loop :: "nat \<Rightarrow> real list list \<Rightarrow> ndarray \<Rightarrow> error + ndarray" where
  "intensity_loop c [] tmp = Inr tmp"
| "intensity_loop c (iRec # rest) tmp =
     (case reshape_23_4 iRec of
        Inl e \<Rightarrow> Inl e
      | Inr new \<Rightarrow> intensity_loop c rest (vstack tmp (column new c)))"

definition drop_first_row :: "ndarray \<Rightarrow> error + ndarray" where
  "drop_first_row tmp = (case tmp of Array1 a \<Rightarrow> Inl IndexError | Array2 rows \<Rightarrow> Inr (Array2 (drop 1 rows)))"

definition ph_434_intensity :: "ndarray \<Rightarrow> error + ndarray" where
  "ph_434_intensity light =
     (case light of
        Array1 l \<Rightarrow>
          (case reshape_23_4 l of Inl e \<Rightarrow> Inl e | Inr new \<Rightarrow> Inr (Array1 (column new 3)))
      | Array2 recs \<Rightarrow>
          (case intensity_loop 1 recs (Array1 (replicate 23 0)) of
             Inl e \<Rightarrow> Inl e
           | Inr tmp \<Rightarrow> drop_first_row tmp))"

definition ph_578_intensity :: "ndarray \<Rightarrow> error + ndarray" where
  "ph_578_intensity light =
     (case light of
        Array1 l \<Rightarrow>
          (case reshape_23_4 l of Inl e \<Rightarrow> Inl e | Inr new \<Rightarrow> Inr (Array1 (column new 3)))
      | Array2 recs \<Rightarrow>
          (case intensity_loop 3 recs (Array1 (replicate 23 0)) of
             Inl e \<Rightarrow> Inl e
           | Inr tmp \<Rightarrow> drop_first_row tmp))"

section \<open>The specification's formulas\<close>

text \<open>
  The pH of measurement \<open>i\<close> as the specification states it, from the two blanks, the
  flat array of 92 light measurements, the temperature \<open>T\<close>, the four absorptivities and
  the salinity \<open>S\<close>: the real part of \<open>pKa + log10 ((R - e1) / (e2 - R * e3))\<close> with the
  logarithm taken over the complex numbers.
\<close>

definition spec_pointph ::
  "npfloat \<Rightarrow> npfloat \<Rightarrow> real list \<Rightarrow> real \<Rightarrow> real \<Rightarrow> real \<Rightarrow> real \<Rightarrow> real \<Rightarrow> real \<Rightarrow> nat \<Rightarrow> npfloat" where
  "spec_pointph blank434 blank578 light T ea434 eb434 ea578 eb578 S i =
     (let abs434 = fsub (fneg (flog10 (fdiv (Some (light ! (4 * i + 1))) (Some (light ! (4 * i))))))
                        (fneg (flog10 blank434));
          abs578 = fsub (fneg (flog10 (fdiv (Some (light ! (4 * i + 3))) (Some (light ! (4 * i + 2))))))
                        (fneg (flog10 blank578));
          R = fdiv abs578 abs434;
          e1 = fdiv (Some (ea578 + (T - 24.788))) (Some (ea434 - 26 * (T - 24.788)));
          e2 = fdiv (Some (eb578 - 71 * (T - 24.788))) (Some (ea434 - 26 * (T - 24.788)));
          e3 = fdiv (Some (eb434 + 12 * (T - 24.788))) (Some (ea434 - 26 * (T - 24.788)));
          pKa = fadd (fadd (fdiv (Some 1245.69) (Some (T + 273.15))) (Some 3.8275))
                     (Some (0.0021 * (35 - S)));
          arg = fdiv (fsub R e1) (fsub e2 (fmul R e3))
      in map_option Re (cadd (map_option complex_of_real pKa)
                             (clog10 (map_option complex_of_real arg))))"

text \<open>
  The window search as the specification states it: the retained point \<open>j\<close> (of 18,
  counted from 0) has the x-coordinate \<open>j + 1\<close> and the y-coordinate \<open>pointph[j + 5]\<close>,
  and the window at offset \<open>k\<close> holds the points \<open>k\<close> to \<open>k + 7\<close>.
\<close>

definition spec_x :: "nat \<Rightarrow> npfloat" where
  "spec_x j = Some (real (j + 1))"

definition spec_y :: "npfloat list \<Rightarrow> nat \<Rightarrow> npfloat" where
  "spec_y pointph j = pointph ! (j + 5)"

definition window_sum :: "(nat \<Rightarrow> npfloat) \<Rightarrow> nat \<Rightarrow> npfloat" where
  "window_sum f k = np_sum (map f [k..<k + 8])"

definition spec_r2 :: "npfloat list \<Rightarrow> nat \<Rightarrow> npfloat" where
  "spec_r2 pointph k =
     (let Sx = window_sum spec_x k;
          Sy = window_sum (spec_y pointph) k;
          Sxy = window_sum (\<lambda>j. fmul (spec_x j) (spec_y pointph j)) k;
          Sxx = window_sum (\<lambda>j. fsq (spec_x j)) k;
          Syy = window_sum (\<lambda>j. fsq (spec_y pointph j)) k;
          ssxy = fsub Sxy (fdiv (fmul Sx Sy) (Some 8));
          ssx = fsub Sxx (fdiv (fsq Sx) (Some 8));
          ssy = fsub Syy (fdiv (fsq Sy) (Some 8))
      in fdiv (fsq ssxy) (fmul ssx ssy))"

section \<open>Sample records\<close>

text \<open>
  A reference cycle whose eight ratios are 1, and 23 sets of light measurements whose
  intensity ratios are powers of ten, so that every logarithm of the computation is an
  integer; and a series of 23 candidate pH values whose retained points 3 to 10 lie on a
  line.
\<close>

definition sample_ref :: "real list" where
  "sample_ref = [2100, 2100, 2080, 2080, 2093, 2093, 2073, 2073,
                 2100, 2100, 2085, 2085, 2090, 2090, 2078, 2078]"

definition sample_light :: "real list" where
  "sample_light =
     [10, 1, 10, 1, 10, 1, 10000000000, 1, 100, 1, 100, 1, 10, 1, 10, 1,
      10, 1, 10000000000, 1, 10000000000, 1, 10, 1, 10, 1, 10, 1, 100, 1, 100, 1,
      10, 1, 10000000000, 1, 10, 1, 10000000000, 1, 10, 1, 10, 1, 100, 1, 100, 1,
      10000000000, 1, 10, 1, 10, 1, 10, 1, 10, 1, 10000000000, 1, 100, 1, 100, 1,
      10, 1, 10000000000, 1, 10, 1, 10, 1, 10000000000, 1, 10, 1, 100, 1, 100, 1,
      10, 1, 10, 1, 10, 1, 10000000000, 1, 100, 1, 100, 1]"





section \<open>Properties\<close>

subsection \<open>Arrays\<close>

lemma column_reshape:
  assumes "length a = 92" "c < 4"
  shows "column (map (\<lambda>r. take 4 (drop (4 * r) a)) [0..<23]) c = map (\<lambda>r. a ! (4 * r + c)) [0..<23]"
  unfolding column_def using assms by (auto simp: nth_append)

lemma ph_light_columns:
  assumes "length light = 92"
  shows "ph_light light =
     Inr (map (\<lambda>r. Some (light ! (4 * r))) [0..<23], map (\<lambda>r. Some (light ! (4 * r + 1))) [0..<23],
          map (\<lambda>r. Some (light ! (4 * r + 2))) [0..<23], map (\<lambda>r. Some (light ! (4 * r + 3))) [0..<23])"
  using assms column_reshape [of "map Some light" 0] column_reshape [of "map Some light" 1]
    column_reshape [of "map Some light" 2] column_reshape [of "map Some light" 3]
  by (simp add: ph_light_def reshape_23_4_def)

lemma slice_nth: "j \<le> length a \<Longrightarrow> slice a i j = map (\<lambda>k. a ! k) [i..<j]"
  unfolding slice_def by (intro nth_equalityI) auto

lemma fill_loop:
  "k \<le> length r \<Longrightarrow>
   fold (\<lambda>i r2. r2[i := g i]) [0..<k] r = map g [0..<k] @ drop k r"
proof (induction k)
  case 0
  then show ?case by simp
next
  case (Suc k)
  then have "k < length r" by simp
  then show ?case using Suc
    by (simp add: list_update_append Cons_nth_drop_Suc [symmetric])
qed

lemma map2_map_map: "map2 f (map g l) (map h l) = map (\<lambda>j. f (g j) (h j)) l"
  by (induction l) auto








subsection \<open>The blanks\<close>

lemma blanks_short: "length ref < 16 \<Longrightarrow> ph_blanks ref = Inl IndexError"
  by (auto simp add: ph_blanks_def ratio_def getitem_def split: sum.splits)

lemma blanks_long: "16 \<le> length ref \<Longrightarrow> \<exists>b4 b5. ph_blanks ref = Inr (b4, b5)"
  by (auto simp add: ph_blanks_def ratio_def getitem_def split: sum.splits)


text \<open>
  Claim C5. For a reference cycle of 16 values whose eight denominators are not zero,
  \<open>blank434\<close> is the arithmetic mean of \<open>ref[1]/ref[0]\<close>, \<open>ref[5]/ref[4]\<close>,
  \<open>ref[9]/ref[8]\<close>, \<open>ref[13]/ref[12]\<close> and \<open>blank578\<close> is the arithmetic mean of
  \<open>ref[3]/ref[2]\<close>, \<open>ref[7]/ref[6]\<close>, \<open>ref[11]/ref[10]\<close>, \<open>ref[15]/ref[14]\<close>.
\<close>

theorem blanks_are_means:
  assumes "length ref = 16"
    and "ref ! 0 \<noteq> 0" "ref ! 4 \<noteq> 0" "ref ! 8 \<noteq> 0" "ref ! 12 \<noteq> 0"
    and "ref ! 2 \<noteq> 0" "ref ! 6 \<noteq> 0" "ref ! 10 \<noteq> 0" "ref ! 14 \<noteq> 0"
  shows "ph_blanks ref =
     Inr (Some ((ref ! 1 / ref ! 0 + ref ! 5 / ref ! 4 + ref ! 9 / ref ! 8
                 + ref ! 13 / ref ! 12) / 4),
          Some ((ref ! 3 / ref ! 2 + ref ! 7 / ref ! 6 + ref ! 11 / ref ! 10
                 + ref ! 15 / ref ! 14) / 4))"
  using assms by (simp add: ph_blanks_def ratio_def getitem_def np_mean_def)

theorem blanks_are_means_witness:
  "length [2100, 1894, 2080, 1910, 2093, 1883, 2073, 1899,
           2100, 1900, 2085, 1895, 2090, 1898, 2078, 1901 :: real] = 16
   \<and> ph_blanks [2100, 1894, 2080, 1910, 2093, 1883, 2073, 1899,
                 2100, 1900, 2085, 1895, 2090, 1898, 2078, 1901] =
       Inr (Some ((1894 / 2100 + 1883 / 2093 + 1900 / 2100 + 1898 / 2090) / 4),
            Some ((1910 / 2080 + 1899 / 2073 + 1895 / 2085 + 1901 / 2078) / 4))"
  using blanks_are_means [of "[2100, 1894, 2080, 1910, 2093, 1883, 2073, 1899,
           2100, 1900, 2085, 1895, 2090, 1898, 2078, 1901]"]
  by simp

text \<open>
  Claim C8, as amended. The blanks are computed without any validation: for every
  reference cycle of 16 values \<open>ph_blanks\<close> raises nothing. A blank whose four denominators
  are not zero is the mean of its four ratios, whatever their signs; a blank with a zero
  denominator is not a finite number.
\<close>

theorem blanks_never_raise:
  assumes "length ref = 16"
  shows "ph_blanks ref =
     Inr (if ref ! 0 \<noteq> 0 \<and> ref ! 4 \<noteq> 0 \<and> ref ! 8 \<noteq> 0 \<and> ref ! 12 \<noteq> 0
          then Some ((ref ! 1 / ref ! 0 + ref ! 5 / ref ! 4 + ref ! 9 / ref ! 8
                       + ref ! 13 / ref ! 12) / 4)
          else None,
          if ref ! 2 \<noteq> 0 \<and> ref ! 6 \<noteq> 0 \<and> ref ! 10 \<noteq> 0 \<and> ref ! 14 \<noteq> 0
          then Some ((ref ! 3 / ref ! 2 + ref ! 7 / ref ! 6 + ref ! 11 / ref ! 10
                       + ref ! 15 / ref ! 14) / 4)
          else None)"
  using assms by (simp add: ph_blanks_def ratio_def getitem_def np_mean_def)

theorem blanks_never_raise_witness:
  "length [0, 1894, 2080, -1910, 2093, 1883, 2073, 1899,
           2100, 1900, 2085, 1895, 2090, 1898, 2078, 1901 :: real] = 16
   \<and> ph_blanks [0, 1894, 2080, -1910, 2093, 1883, 2073, 1899,
              2100, 1900, 2085, 1895, 2090, 1898, 2078, 1901] =
     Inr (None, Some ((- 1910 / 2080 + 1899 / 2073 + 1895 / 2085 + 1901 / 2078) / 4))"
  using blanks_never_raise [of "[0, 1894, 2080, -1910, 2093, 1883, 2073, 1899,
              2100, 1900, 2085, 1895, 2090, 1898, 2078, 1901]"]
  by simp


text \<open>
  The claim C8 as it was stated fails: on a cycle whose first ratio is \<open>0 / 2100\<close>, which
  is not positive, the blanks are returned as numbers.
\<close>

theorem blanks_unvalidated_counterexample:
  "ph_blanks [2100, 0, 2080, 1910, 2093, 1883, 2073, 1899,
              2100, 1900, 2085, 1895, 2090, 1898, 2078, 1901] =
     Inr (Some ((0 / 2100 + 1883 / 2093 + 1900 / 2100 + 1898 / 2090) / 4),
          Some ((1910 / 2080 + 1899 / 2073 + 1895 / 2085 + 1901 / 2078) / 4))"
  by (simp add: ph_blanks_def ratio_def getitem_def np_mean_def)


subsection \<open>The molar absorptivities\<close>



subsection \<open>The pH of each measurement\<close>

lemma Re_cadd_real:
  "map_option Re (cadd (map_option complex_of_real c) z) = fadd c (map_option Re z)"
  by (cases c; cases z) auto

lemma Re_clog10_real:
  "x \<noteq> 0 \<Longrightarrow> map_option Re (clog10 (Some (complex_of_real x))) = Some (log 10 \<bar>x\<bar>)"
  by (simp add: clog10_def log_def)

lemma Re_clog10_zero: "map_option Re (clog10 (Some (complex_of_real 0))) = None"
  by (simp add: clog10_def)

lemma flog10_as_clog10:
  assumes "\<not> is_lt_zero x"
  shows "flog10 x = map_option Re (clog10 (map_option complex_of_real x))"
proof (cases x)
  case None
  then show ?thesis by (simp add: clog10_def)
next
  case (Some r)
  then have "0 \<le> r" using assms by (simp add: is_lt_zero_def)
  then show ?thesis using Some Re_clog10_real [of r] Re_clog10_zero
    by (cases "r = 0") auto
qed

lemma np_real_scimath:
  "np_real (s_add_nparray c (scimath_log10 xs)) =
     map (\<lambda>x. map_option Re (cadd (map_option complex_of_real c)
                                   (clog10 (map_option complex_of_real x)))) xs"
proof (cases "list_ex is_lt_zero xs")
  case True
  then show ?thesis
    by (simp add: scimath_log10_def fix_real_lt_zero_def s_add_nparray_def np_real_def comp_def)
next
  case False
  then have nn: "\<not> is_lt_zero x" if "x \<in> set xs" for x
    using that by (auto simp: list_ex_iff)
  have "np_real (s_add_nparray c (scimath_log10 xs)) = map (\<lambda>x. fadd c (flog10 x)) xs"
    using False
    by (simp add: scimath_log10_def fix_real_lt_zero_def s_add_nparray_def np_real_def comp_def)
  also have "\<dots> = map (\<lambda>x. map_option Re (cadd (map_option complex_of_real c)
                                   (clog10 (map_option complex_of_real x)))) xs"
    using nn by (simp add: Re_cadd_real flog10_as_clog10)
  finally show ?thesis .
qed

lemma pointph_of_length:
  "length (pointph_of pKa e A578 A578blank A434 A434blank) = min (length A578) (length A434)"
  by (simp add: pointph_of_def Let_def np_real_scimath arr_div_def arr_sub_s_def s_sub_arr_def
      arr_mul_s_def)

lemma pointph_of_nth:
  assumes "i < length A578" "i < length A434"
  shows "pointph_of pKa e A578 A578blank A434 A434blank ! i =
     (let R = fdiv (fsub (A578 ! i) A578blank) (fsub (A434 ! i) A434blank)
      in map_option Re (cadd (map_option complex_of_real pKa)
           (clog10 (map_option complex_of_real
              (fdiv (fsub R (e1_of e)) (fsub (e2_of e) (fmul R (e3_of e))))))))"
  using assms
  by (simp add: pointph_of_def Let_def np_real_scimath arr_div_def arr_sub_s_def s_sub_arr_def
      arr_mul_s_def)

lemma IndConc_of_length:
  "length (IndConc_of e abs434 abs578) = min (length abs434) (length abs578)"
  by (auto simp add: IndConc_of_def Let_def arr_add_def arr_div_s_def arr_sub_def arr_mul_s_def)

lemma ph_points_ok:
  assumes "ph_blanks ref = Inr (blank434, blank578)" "length light = 92"
  shows "\<exists>IndConc pointph.
     ph_points ref light T ea434 eb434 ea578 eb578 S = Inr (IndConc, pointph) \<and>
     length IndConc = 23 \<and> length pointph = 23 \<and>
     (\<forall>i<23. pointph ! i = spec_pointph blank434 blank578 light T ea434 eb434 ea578 eb578 S i)"
  using assms
  by (simp add: ph_points_def ph_light_columns Let_def IndConc_of_length pointph_of_length
      pointph_of_nth absorbance_def arr_sub_s_def arr_div_def spec_pointph_def pKa_of_def
      e1_of_def e2_of_def e3_of_def molar_absorptivities_def)

lemma points_bad_light:
  assumes "length light \<noteq> 92"
  shows "ph_points ref light therm ea434 eb434 ea578 eb578 psal =
     Inl (if length ref < 16 then IndexError else ValueError)"
proof (cases "length ref < 16")
  case True
  then show ?thesis by (simp add: ph_points_def blanks_short)
next
  case False
  then obtain b where "ph_blanks ref = Inr b" using blanks_long [of ref] by auto
  moreover have "ph_light light = Inl ValueError"
    using assms by (simp add: ph_light_def reshape_23_4_def)
  ultimately show ?thesis using False by (simp add: ph_points_def split: prod.splits)
qed


lemma log10_values:
  "log 10 (1 / 10) = - 1" "log 10 (1 / 100) = - 2" "log 10 (1 / 10000000000) = - 10"
proof -
  have a: "log 10 (1 / 10 ^ n) = - real n" for n :: nat
    by (simp add: log_divide log_nat_power)
  show "log 10 (1 / 10) = - 1" using a [of 1] by simp
  show "log 10 (1 / 100) = - 2" using a [of 2] by simp
  show "log 10 (1 / 10000000000) = - 10" using a [of 10] by simp
qed

lemma Re_clog10_values:
  "map_option Re (clog10 (Some 1)) = Some 0"
  "map_option Re (clog10 (Some 10)) = Some 1"
  "map_option Re (clog10 (Some (1 / 10))) = Some (- 1)"
  using Re_clog10_real [of 1] Re_clog10_real [of 10] Re_clog10_real [of "1 / 10"]
  by (simp_all add: log10_values)

lemma Re_clog10_more:
  "map_option Re (clog10 (Some (1 / 100))) = Some (- 2)"
  "map_option Re (clog10 (Some (- (9 / 8)))) = Some (log 10 (9 / 8))"
  using Re_clog10_real [of "1 / 100"] Re_clog10_real [of "- (9 / 8)"]
  by (simp_all add: log10_values)

lemma sample_blanks: "ph_blanks sample_ref = Inr (Some 1, Some 1)"
  by (simp add: sample_ref_def ph_blanks_def ratio_def getitem_def np_mean_def)

lemma sample_light_columns:
  "ph_light sample_light =
     Inr ([Some 10, Some 10, Some 100, Some 10, Some 10, Some 10000000000, Some 10, Some 100, Some 10, Some 10, Some 10, Some 100, Some 10000000000, Some 10, Some 10, Some 100, Some 10, Some 10, Some 10000000000, Some 100, Some 10, Some 10, Some 100],
          [Some 1, Some 1, Some 1, Some 1, Some 1, Some 1, Some 1, Some 1, Some 1, Some 1, Some 1, Some 1, Some 1, Some 1, Some 1, Some 1, Some 1, Some 1, Some 1, Some 1, Some 1, Some 1, Some 1],
          [Some 10, Some 10000000000, Some 100, Some 10, Some 10000000000, Some 10, Some 10, Some 100, Some 10000000000, Some 10000000000, Some 10, Some 100, Some 10, Some 10, Some 10000000000, Some 100, Some 10000000000, Some 10, Some 10, Some 100, Some 10, Some 10000000000, Some 100],
          [Some 1, Some 1, Some 1, Some 1, Some 1, Some 1, Some 1, Some 1, Some 1, Some 1, Some 1, Some 1, Some 1, Some 1, Some 1, Some 1, Some 1, Some 1, Some 1, Some 1, Some 1, Some 1, Some 1])"
proof -
  have "length sample_light = 92" by (simp add: sample_light_def)
  from ph_light_columns [OF this] show ?thesis
    by (simp add: upt_rec sample_light_def)
qed





text \<open>
  Claim C9. When the light measurements are not 92 values, \<open>ph_phwater\<close> raises: the
  \<open>ValueError\<close> of \<open>np.reshape\<close>, or the \<open>IndexError\<close> of the blanks when the reference
  cycle has fewer than 16 values. It never returns a pH.
\<close>

theorem light_length_is_checked:
  assumes "length light \<noteq> 92"
  shows "ph_phwater ref light therm ea434 eb434 ea578 eb578 psal =
           Inl (if length ref < 16 then IndexError else ValueError)
       \<and> ph_calc_phwater (OneRecord ref light therm ea434 eb434 ea578 eb578 psal) =
           Inl (if length ref < 16 then IndexError else ValueError)"
  using points_bad_light [OF assms] by (simp add: ph_phwater_def)

theorem light_length_is_checked_witness:
  "length (replicate 91 (1::real)) \<noteq> 92
   \<and> ph_phwater (replicate 16 1) (replicate 91 1) 20 17709 2287 107 38222 35 = Inl ValueError
   \<and> length (replicate 93 (1::real)) \<noteq> 92
   \<and> ph_phwater (replicate 16 1) (replicate 93 1) 20 17709 2287 107 38222 35 = Inl ValueError"
  using light_length_is_checked [of "replicate 91 1" "replicate 16 1" 20 17709 2287 107 38222 35]
    light_length_is_checked [of "replicate 93 1" "replicate 16 1" 20 17709 2287 107 38222 35]
  by simp


subsection \<open>The window\<close>

lemma r2_loop_map: "r2_loop X Y count npts = map (r2_window X Y count) [0..<npts]"
  unfolding r2_loop_def using fill_loop [of npts "replicate npts (Some 0)"] by simp

lemma ph_r2_map: "ph_r2 pointph = map (r2_window linspace_1_18 (drop 5 pointph) 8) [0..<11]"
  by (simp add: ph_r2_def Let_def r2_loop_map linspace_1_18_def)

lemma slice_X:
  assumes "k < 11"
  shows "slice linspace_1_18 k (k + 8) = map spec_x [k..<k + 8]"
proof -
  have "slice linspace_1_18 k (k + 8) = map (\<lambda>j. linspace_1_18 ! j) [k..<k + 8]"
    using assms by (simp add: slice_nth linspace_1_18_def)
  also have "\<dots> = map spec_x [k..<k + 8]"
    using assms by (auto simp: linspace_1_18_def spec_x_def)
  finally show ?thesis .
qed

lemma slice_Y:
  assumes "k < 11" "length pointph = 23"
  shows "slice (drop 5 pointph) k (k + 8) = map (spec_y pointph) [k..<k + 8]"
proof -
  have "slice (drop 5 pointph) k (k + 8) = map (\<lambda>j. drop 5 pointph ! j) [k..<k + 8]"
    using assms by (simp add: slice_nth)
  also have "\<dots> = map (spec_y pointph) [k..<k + 8]"
    using assms by (auto simp: spec_y_def add.commute)
  finally show ?thesis .
qed

lemma r2_window_spec:
  assumes "k < 11" "length pointph = 23"
  shows "r2_window linspace_1_18 (drop 5 pointph) 8 k = spec_r2 pointph k"
  unfolding r2_window_def spec_r2_def window_sum_def Let_def
  by (simp add: slice_X [OF assms(1)] slice_Y [OF assms] arr_mul_def map2_map_map fsq_def comp_def)

lemma ph_r2_spec:
  assumes "length pointph = 23"
  shows "length (ph_r2 pointph) = 11" and "k < 11 \<Longrightarrow> ph_r2 pointph ! k = spec_r2 pointph k"
  using assms by (simp_all add: ph_r2_map r2_window_spec)



lemma np_argmax_bound:
  assumes "a \<noteq> []"
  shows "\<exists>c. np_argmax a = Inr c \<and> c < length a"
proof -
  have scan: "mi < i \<Longrightarrow> argmax_scan ip i mp mi < i + length ip" for ip i mp mi
  proof (induction ip i mp mi rule: argmax_scan.induct)
    case (1 i mp max_ind)
    then show ?case by simp
  next
    case (2 ip i mp max_ind)
    then show ?case by simp
  next
    case (3 x ip i mp max_ind)
    then show ?case by (auto simp: less_Suc_eq)
  qed
  show ?thesis using assms scan [of 0 1]
    by (auto simp: np_argmax_def split: list.splits option.splits)
qed

lemma ph_window_ok:
  assumes "length pointph = 23" "length IndConc = 23"
  shows "\<exists>c<11. np_argmax (ph_r2 pointph) = Inr c \<and>
     ph_window IndConc pointph =
       Inr (map (\<lambda>j. IndConc ! (c + 5 + j)) [0..<8], map (\<lambda>j. pointph ! (c + 5 + j)) [0..<8])"
proof -
  have "ph_r2 pointph \<noteq> []" using ph_r2_spec(1) [OF assms(1)] by auto
  then obtain c where c: "np_argmax (ph_r2 pointph) = Inr c" "c < 11"
    using np_argmax_bound [of "ph_r2 pointph"] ph_r2_spec(1) [OF assms(1)] by auto
  have sl: "slice (drop 5 a) c (c + 8) = map (\<lambda>j. a ! (c + 5 + j)) [0..<8]" if "length a = 23" for a :: "npfloat list"
    unfolding slice_def using that c(2)
    by (intro nth_equalityI) (auto simp: add.commute add.left_commute)
  show ?thesis using c sl [OF assms(1)] sl [OF assms(2)]
    by (auto simp: ph_window_def Let_def)
qed

lemma ph_phwater_total:
  assumes "16 \<le> length ref" "length light = 92"
  shows "\<exists>v. ph_phwater ref light T ea434 eb434 ea578 eb578 S = Inr v"
proof -
  obtain b4 b5 where "ph_blanks ref = Inr (b4, b5)"
    using blanks_long [OF assms(1)] by blast
  then obtain IndConc pointph where
    p: "ph_points ref light T ea434 eb434 ea578 eb578 S = Inr (IndConc, pointph)"
       "length IndConc = 23" "length pointph = 23"
    using ph_points_ok [OF _ assms(2), of ref b4 b5] by blast
  obtain c where "ph_window IndConc pointph =
       Inr (map (\<lambda>j. IndConc ! (c + 5 + j)) [0..<8], map (\<lambda>j. pointph ! (c + 5 + j)) [0..<8])"
    using ph_window_ok [OF p(3) p(2)] by blast
  then show ?thesis using p(1) by (simp add: ph_phwater_def)
qed







lemma sample_ph:
  "ph_phwater sample_ref sample_light 24.788 1 0 0 1 35 =
     Inr (Some (493083751333 / 62388217200))"
  unfolding ph_phwater_def ph_points_def sample_blanks sample_light_columns
  by (simp add: Let_def
      absorbance_def arr_div_def arr_sub_s_def pKa_of_def molar_absorptivities_def
      IndConc_of_def arr_div_s_def arr_sub_def arr_mul_s_def arr_add_def
      pointph_of_def np_real_scimath s_sub_arr_def e1_of_def e2_of_def e3_of_def
      Re_cadd_real Re_clog10_values log10_values
      ph_window_def ph_r2_map r2_window_def slice_def
      linspace_1_18_def arr_mul_def fsq_def upt_rec np_argmax_def ph_regression_def np_mean_def)

lemma sample_ph2:
  "ph_phwater sample_ref sample_light 24.788 1 0 0 10 35 =
     Inr (Some (5720268793237 / 761708290800))"
  unfolding ph_phwater_def ph_points_def sample_blanks sample_light_columns
  by (simp add: Let_def
      absorbance_def arr_div_def arr_sub_s_def pKa_of_def molar_absorptivities_def
      IndConc_of_def arr_div_s_def arr_sub_def arr_mul_s_def arr_add_def
      pointph_of_def np_real_scimath s_sub_arr_def e1_of_def e2_of_def e3_of_def
      Re_cadd_real Re_clog10_values Re_clog10_more log10_values
      ph_window_def ph_r2_map r2_window_def slice_def
      linspace_1_18_def arr_mul_def fsq_def upt_rec np_argmax_def ph_regression_def np_mean_def)


subsection \<open>The final regression\<close>








subsection \<open>Batches\<close>

lemma batch_loop_append:
  "batch_loop f (xs @ ys) pH =
     (case batch_loop f xs pH of Inl e \<Rightarrow> Inl e | Inr p \<Rightarrow> batch_loop f ys p)"
  by (induction xs arbitrary: pH) (auto split: sum.splits)

lemma batch_loop_prefix:
  assumes "k \<le> length pH"
  shows "batch_loop f [0..<k] pH = Inr out \<longleftrightarrow>
     (\<forall>i<k. \<exists>v. f i = Inr v) \<and> out = map (\<lambda>i. projr (f i)) [0..<k] @ drop k pH"
  using assms
proof (induction k arbitrary: out)
  case 0
  then show ?case by auto
next
  case (Suc k)
  have k: "k \<le> length pH" "k < length pH" using Suc.prems by auto
  note IH = Suc.IH [OF k(1)]
  show ?case
  proof (cases "batch_loop f [0..<k] pH")
    case (Inl e)
    then have "\<not> (\<forall>i<k. \<exists>v. f i = Inr v)" using IH by auto
    then have "\<not> (\<forall>i<Suc k. \<exists>v. f i = Inr v)" using less_Suc_eq by auto
    then show ?thesis using Inl by (simp add: batch_loop_append)
  next
    case (Inr p)
    then have p: "\<forall>i<k. \<exists>v. f i = Inr v" "p = map (\<lambda>i. projr (f i)) [0..<k] @ drop k pH"
      using IH [of p] by auto
    have upd: "p[k := v] = map (\<lambda>i. projr (f i)) [0..<k] @ v # drop (Suc k) pH" for v
      using k by (simp add: p(2) list_update_append Cons_nth_drop_Suc [symmetric] )
    show ?thesis
    proof (cases "f k")
      case (Inl e)
      then have "\<not> (\<forall>i<Suc k. \<exists>v. f i = Inr v)" by auto
      then show ?thesis using Inl \<open>batch_loop f [0..<k] pH = Inr p\<close>
        by (simp add: batch_loop_append)
    next
      case (Inr v)
      have all: "(\<forall>i<Suc k. \<exists>v. f i = Inr v)" using p(1) Inr less_Suc_eq by auto
      have "batch_loop f [0..<Suc k] pH = Inr (p[k := v])"
        using Inr \<open>batch_loop f [0..<k] pH = Inr p\<close> by (simp add: batch_loop_append)
      then show ?thesis using all upd [of v] Inr by auto
    qed
  qed
qed

lemma batch_loop_all:
  "batch_loop f [0..<n] (replicate n z) = Inr out \<longleftrightarrow>
     length out = n \<and> (\<forall>i<n. f i = Inr (out ! i))"
proof -
  have "batch_loop f [0..<n] (replicate n z) = Inr out \<longleftrightarrow>
     (\<forall>i<n. \<exists>v. f i = Inr v) \<and> out = map (\<lambda>i. projr (f i)) [0..<n]"
    using batch_loop_prefix [of n "replicate n z" f out] by simp
  also have "\<dots> \<longleftrightarrow> length out = n \<and> (\<forall>i<n. f i = Inr (out ! i))"
  proof
    assume "(\<forall>i<n. \<exists>v. f i = Inr v) \<and> out = map (\<lambda>i. projr (f i)) [0..<n]"
    then show "length out = n \<and> (\<forall>i<n. f i = Inr (out ! i))" by auto
  next
    assume r: "length out = n \<and> (\<forall>i<n. f i = Inr (out ! i))"
    then have "out = map (\<lambda>i. projr (f i)) [0..<n]"
      by (intro nth_equalityI) auto
    then show "(\<forall>i<n. \<exists>v. f i = Inr v) \<and> out = map (\<lambda>i. projr (f i)) [0..<n]"
      using r by auto
  qed
  finally show ?thesis .
qed

lemma batch_loop_first_failure:
  assumes "i < n" "f i = Inl e" "\<forall>j<i. \<exists>v. f j = Inr v"
  shows "batch_loop f [0..<n] pH = Inl e"
proof -
  have split: "[0..<n] = [0..<i] @ i # [Suc i..<n]"
  proof -
    have "[0..<n] = [0..<i] @ [i..<n]"
      using assms(1) upt_add_eq_append [of 0 i "n - i"] by simp
    then show ?thesis using assms(1) by (simp add: upt_conv_Cons)
  qed
  have pre: "\<exists>p. batch_loop f [0..<i] pH = Inr p"
    using assms(3)
  proof (induction i arbitrary: pH)
    case 0
    then show ?case by simp
  next
    case (Suc i)
    then obtain p where "batch_loop f [0..<i] pH = Inr p" by (meson less_Suc_eq)
    moreover obtain v where "f i = Inr v" using Suc.prems by blast
    ultimately show ?case by (simp add: batch_loop_append)
  qed
  then obtain p where "batch_loop f [0..<i] pH = Inr p" by blast
  then show ?thesis using assms(2) by (simp add: split batch_loop_append)
qed

lemma ph_record_scalar_iff:
  assumes "iRec < length ref"
  shows "ph_record ref light therm ea434 eb434 ea578 eb578 (PsalScalar s) (length ref) iRec = Inr v
    \<longleftrightarrow> iRec < length light \<and> iRec < length therm \<and> iRec < length ea434 \<and> iRec < length eb434
        \<and> iRec < length ea578 \<and> iRec < length eb578
        \<and> ph_phwater (ref ! iRec) (light ! iRec) (therm ! iRec) (ea434 ! iRec) (eb434 ! iRec)
             (ea578 ! iRec) (eb578 ! iRec) s = Inr v"
  using assms by (auto simp add: ph_record_def getitem_def psal_item_def)

text \<open>
  Claim C4. For a batch of records with a scalar salinity, \<open>ph_calc_phwater\<close> returns an
  array exactly when every record has an entry in each per-record array and \<open>ph_phwater\<close>
  returns on it; the array has one entry for each record, and entry \<open>i\<close> is the result of
  \<open>ph_phwater\<close> on the reference cycle, the light measurements, the temperature and the
  four coefficients of record \<open>i\<close>, and the same salinity.
\<close>

theorem batch_is_per_record:
  "ph_calc_phwater (Records ref light therm ea434 eb434 ea578 eb578 (PsalScalar s)) = Inr out
     \<longleftrightarrow> (\<exists>pH. out = PHs pH \<and> length pH = length ref \<and>
           (\<forall>i<length ref.
              i < length light \<and> i < length therm \<and> i < length ea434 \<and> i < length eb434
              \<and> i < length ea578 \<and> i < length eb578
              \<and> ph_phwater (ref ! i) (light ! i) (therm ! i) (ea434 ! i) (eb434 ! i)
                   (ea578 ! i) (eb578 ! i) s = Inr (pH ! i)))"
proof -
  let ?f = "ph_record ref light therm ea434 eb434 ea578 eb578 (PsalScalar s) (length ref)"
  have "ph_calc_phwater (Records ref light therm ea434 eb434 ea578 eb578 (PsalScalar s)) = Inr out
     \<longleftrightarrow> (\<exists>pH. out = PHs pH \<and> batch_loop ?f [0..<length ref] (replicate (length ref) (Some 0)) = Inr pH)"
    by (cases "batch_loop ?f [0..<length ref] (replicate (length ref) (Some 0))")
       (auto simp: ph_calc_phwater_records_def Let_def)
  also have "\<dots> \<longleftrightarrow> (\<exists>pH. out = PHs pH \<and> length pH = length ref \<and> (\<forall>i<length ref. ?f i = Inr (pH ! i)))"
    by (simp add: batch_loop_all)
  also have "\<dots> \<longleftrightarrow> (\<exists>pH. out = PHs pH \<and> length pH = length ref \<and>
           (\<forall>i<length ref.
              i < length light \<and> i < length therm \<and> i < length ea434 \<and> i < length eb434
              \<and> i < length ea578 \<and> i < length eb578
              \<and> ph_phwater (ref ! i) (light ! i) (therm ! i) (ea434 ! i) (eb434 ! i)
                   (ea578 ! i) (eb578 ! i) s = Inr (pH ! i)))"
    using ph_record_scalar_iff [of _ ref light therm ea434 eb434 ea578 eb578 s] by simp
  finally show ?thesis .
qed

theorem batch_is_per_record_witness:
  "ph_calc_phwater (Records [sample_ref, sample_ref] [sample_light, sample_light]
      [24.788, 24.788] [1, 1] [0, 0] [0, 0] [1, 10] (PsalScalar 35)) =
     Inr (PHs [Some (493083751333 / 62388217200), Some (5720268793237 / 761708290800)])
   \<and> ph_phwater sample_ref sample_light 24.788 1 0 0 1 35 =
       Inr (Some (493083751333 / 62388217200))
   \<and> ph_phwater sample_ref sample_light 24.788 1 0 0 10 35 =
       Inr (Some (5720268793237 / 761708290800))"
proof -
  let ?pH = "[Some (493083751333 / 62388217200), Some (5720268793237 / 761708290800 :: real)]"
  let ?P = "\<lambda>pH i. i < length [sample_light, sample_light] \<and> i < length [24.788, 24.788 :: real]
     \<and> i < length [1, 1 :: real] \<and> i < length [0, 0 :: real] \<and> i < length [0, 0 :: real]
     \<and> i < length [1, 10 :: real]
     \<and> ph_phwater ([sample_ref, sample_ref] ! i) ([sample_light, sample_light] ! i)
          ([24.788, 24.788] ! i) ([1, 1] ! i) ([0, 0] ! i) ([0, 0] ! i) ([1, 10] ! i) 35 =
        Inr (pH ! i)"
  have "\<forall>i<length [sample_ref, sample_ref]. ?P ?pH i"
    using sample_ph sample_ph2 by (auto simp: less_Suc_eq nth_Cons')
  then have "\<exists>pH. PHs ?pH = PHs pH \<and> length pH = length [sample_ref, sample_ref] \<and>
     (\<forall>i<length [sample_ref, sample_ref]. ?P pH i)"
    by (intro exI [of _ ?pH]) simp
  then have "ph_calc_phwater (Records [sample_ref, sample_ref] [sample_light, sample_light]
      [24.788, 24.788] [1, 1] [0, 0] [0, 0] [1, 10] (PsalScalar 35)) = Inr (PHs ?pH)"
    by (subst batch_is_per_record)
  then show ?thesis using sample_ph sample_ph2 by simp
qed

text \<open>
  Claim C7, as amended. A batch fails fast: when the step of record \<open>i\<close> (fetching its
  arguments and calling \<open>ph_phwater\<close>) raises and the steps of the records before it do
  not, \<open>ph_calc_phwater\<close> raises that exception, and no result is returned for any
  record.
\<close>

theorem batch_fails_fast:
  assumes "i < length ref"
    and "ph_record ref light therm ea434 eb434 ea578 eb578 psal (length ref) i = Inl e"
    and "\<forall>j<i. \<exists>v. ph_record ref light therm ea434 eb434 ea578 eb578 psal (length ref) j = Inr v"
  shows "ph_calc_phwater (Records ref light therm ea434 eb434 ea578 eb578 psal) = Inl e"
  using batch_loop_first_failure [OF assms]
  by (simp add: ph_calc_phwater_records_def Let_def)

lemma sample_record0:
  "0 < n \<Longrightarrow>
   ph_record [sample_ref, sample_ref] [sample_light, sample_light] [24.788] [1, 1] [0, 0]
     [0, 0] [1, 10] (PsalScalar 35) n 0 = Inr (Some (493083751333 / 62388217200))"
  using sample_ph by (simp add: ph_record_def getitem_def psal_item_def)

lemma sample_record1:
  "ph_record [sample_ref, sample_ref] [sample_light, sample_light] [24.788] [1, 1] [0, 0]
     [0, 0] [1, 10] (PsalScalar 35) n 1 = Inl IndexError"
  by (simp add: ph_record_def getitem_def)

theorem batch_fails_fast_witness:
  "ph_record [sample_ref, sample_ref] [sample_light, sample_light] [24.788] [1, 1] [0, 0]
     [0, 0] [1, 10] (PsalScalar 35) (length [sample_ref, sample_ref]) 1 = Inl IndexError
   \<and> ph_record [sample_ref, sample_ref] [sample_light, sample_light] [24.788] [1, 1] [0, 0]
     [0, 0] [1, 10] (PsalScalar 35) (length [sample_ref, sample_ref]) 0 =
       Inr (Some (493083751333 / 62388217200))
   \<and> ph_calc_phwater (Records [sample_ref, sample_ref] [sample_light, sample_light] [24.788]
        [1, 1] [0, 0] [0, 0] [1, 10] (PsalScalar 35)) = Inl IndexError"
proof -
  have i: "1 < length [sample_ref, sample_ref]" by simp
  have r1: "ph_record [sample_ref, sample_ref] [sample_light, sample_light] [24.788] [1, 1]
     [0, 0] [0, 0] [1, 10] (PsalScalar 35) (length [sample_ref, sample_ref]) 1 = Inl IndexError"
    by (rule sample_record1)
  have r0: "ph_record [sample_ref, sample_ref] [sample_light, sample_light] [24.788] [1, 1]
     [0, 0] [0, 0] [1, 10] (PsalScalar 35) (length [sample_ref, sample_ref]) 0 =
       Inr (Some (493083751333 / 62388217200))"
    by (rule sample_record0) simp
  have before: "\<forall>j<1. \<exists>v. ph_record [sample_ref, sample_ref] [sample_light, sample_light]
     [24.788] [1, 1] [0, 0] [0, 0] [1, 10] (PsalScalar 35) (length [sample_ref, sample_ref]) j = Inr v"
    using r0 by simp
  from batch_fails_fast [OF i r1 before] show ?thesis using r0 r1 by blast
qed


text \<open>
  The claim C7 as it was stated fails: in a batch of two records with one temperature,
  the first record has the pH 493083751333 / 62388217200 on its own, and the batch raises
  \<open>IndexError\<close> on the second record without returning it.
\<close>

theorem batch_not_isolated_counterexample:
  "ph_phwater sample_ref sample_light 24.788 1 0 0 1 35 = Inr (Some (493083751333 / 62388217200))
   \<and> ph_calc_phwater (Records [sample_ref, sample_ref] [sample_light, sample_light] [24.788]
        [1, 1] [0, 0] [0, 0] [1, 10] (PsalScalar 35)) = Inl IndexError"
proof -
  have "batch_loop (ph_record [sample_ref, sample_ref] [sample_light, sample_light] [24.788]
     [1, 1] [0, 0] [0, 0] [1, 10] (PsalScalar 35) 2) [0..<2] [Some 0, Some 0] = Inl IndexError"
    using sample_record0 [of 2] sample_record1 [of 2] by (simp add: upt_rec)
  then have "ph_calc_phwater (Records [sample_ref, sample_ref] [sample_light, sample_light]
       [24.788] [1, 1] [0, 0] [0, 0] [1, 10] (PsalScalar 35)) = Inl IndexError"
    by (simp add: ph_calc_phwater_records_def Let_def numeral_2_eq_2)
  then show ?thesis using sample_ph by simp
qed


subsection \<open>The signal intensities\<close>

lemma intensity_single:
  assumes "length light = 92"
  shows "ph_434_intensity (Array1 light) = Inr (Array1 (map (\<lambda>i. light ! (4 * i + 3)) [0..<23]))"
    and "ph_578_intensity (Array1 light) = Inr (Array1 (map (\<lambda>i. light ! (4 * i + 3)) [0..<23]))"
    and "ph_434_intensity (Array2 [light]) = Inr (Array2 [map (\<lambda>i. light ! (4 * i + 1)) [0..<23]])"
  using assms column_reshape [of light 3] column_reshape [of light 1]
  by (simp_all add: ph_434_intensity_def ph_578_intensity_def reshape_23_4_def vstack_def
      drop_first_row_def)


text \<open>
  Claim C10. For one record of 92 light measurements, given as a one-dimensional array,
  \<open>ph_434_intensity\<close> returns what \<open>ph_578_intensity\<close> returns, the 23 values of column 3
  (the signal at 578 nm); for the same record given as an array of one record it returns
  column 1 (the signal at 434 nm), so the two results differ whenever the two columns do.
\<close>

theorem intensity_434_of_one_record:
  assumes "length light = 92"
  shows "ph_434_intensity (Array1 light) = ph_578_intensity (Array1 light)
    \<and> ph_434_intensity (Array1 light) = Inr (Array1 (map (\<lambda>i. light ! (4 * i + 3)) [0..<23]))
    \<and> ph_434_intensity (Array2 [light]) = Inr (Array2 [map (\<lambda>i. light ! (4 * i + 1)) [0..<23]])
    \<and> (map (\<lambda>i. light ! (4 * i + 1)) [0..<23] \<noteq> map (\<lambda>i. light ! (4 * i + 3)) [0..<23] \<longrightarrow>
         ph_434_intensity (Array1 light) \<noteq> Inr (Array1 (map (\<lambda>i. light ! (4 * i + 1)) [0..<23])))"
proof -
  define c1 where "c1 = map (\<lambda>i. light ! (4 * i + 1)) [0..<23]"
  define c3 where "c3 = map (\<lambda>i. light ! (4 * i + 3)) [0..<23]"
  note s = intensity_single [OF assms, folded c1_def c3_def]
  have "ph_434_intensity (Array1 light) = ph_578_intensity (Array1 light)
    \<and> ph_434_intensity (Array1 light) = Inr (Array1 c3)
    \<and> ph_434_intensity (Array2 [light]) = Inr (Array2 [c1])
    \<and> (c1 \<noteq> c3 \<longrightarrow> ph_434_intensity (Array1 light) \<noteq> Inr (Array1 c1))"
    unfolding s by auto
  then show ?thesis unfolding c1_def c3_def .
qed

theorem intensity_434_of_one_record_witness:
  "length (map real [0..<92]) = 92
   \<and> ph_434_intensity (Array1 (map real [0..<92])) = ph_578_intensity (Array1 (map real [0..<92]))
   \<and> ph_434_intensity (Array1 (map real [0..<92])) =
       Inr (Array1 [3, 7, 11, 15, 19, 23, 27, 31, 35, 39, 43, 47, 51, 55, 59, 63, 67, 71, 75,
                    79, 83, 87, 91])
   \<and> ph_434_intensity (Array2 [map real [0..<92]]) =
       Inr (Array2 [[1, 5, 9, 13, 17, 21, 25, 29, 33, 37, 41, 45, 49, 53, 57, 61, 65, 69, 73,
                     77, 81, 85, 89]])"
proof -
  have l: "length (map real [0..<92]) = 92" by simp
  have a: "map (\<lambda>i. map real [0..<92] ! (4 * i + 3)) [0..<23] =
      [3, 7, 11, 15, 19, 23, 27, 31, 35, 39, 43, 47, 51, 55, 59, 63, 67, 71, 75,
                    79, 83, 87, 91]"
    by (simp add: upt_rec [of _ 23])
  have b: "map (\<lambda>i. map real [0..<92] ! (4 * i + 1)) [0..<23] =
      [1, 5, 9, 13, 17, 21, 25, 29, 33, 37, 41, 45, 49, 53, 57, 61, 65, 69, 73,
                     77, 81, 85, 89]"
    by (simp add: upt_rec [of _ 23])
  note t = intensity_434_of_one_record [OF l, unfolded a b]
  show ?thesis using t l by blast
qed


end
